theory Spec2Isabelle
  imports Main
begin

section \<open>Python values and exceptions\<close>

text \<open>
  The module \<^verbatim>\<open>quack/reduction_base.py\<close> computes with Python's unbounded integers
  (type \<open>int\<close> here; \<open>div\<close> and \<open>mod\<close> on \<open>int\<close> round towards minus infinity, as
  Python's \<^verbatim>\<open>//\<close> and \<^verbatim>\<open>%\<close> do). Every exception the module can raise is a value
  of \<open>error\<close>; a bare \<^verbatim>\<open>assert\<close> carries the empty message.
\<close>

datatype error =
    AssertionError string
  | ZeroDivisionError
  | NotImplementedError
  | AttributeError
  | TypeError
  | IndexError

text \<open>Decimal rendering of an integer inside an f-string.\<close>

fun str_nat :: "nat \<Rightarrow> string" where
  "str_nat n =
     (if n < 10 then [char_of (48 + n)]
      else str_nat (n div 10) @ [char_of (48 + n mod 10)])"

declare str_nat.simps [simp del]

definition str_int :: "int \<Rightarrow> string" where
  "str_int i = (if i < 0 then CHR ''-'' # str_nat (nat (- i)) else str_nat (nat i))"

text \<open>
  A \<^verbatim>\<open>cutlass.Numeric\<close> type is used only through its \<^verbatim>\<open>width\<close> in bits.
\<close>

datatype numeric = Numeric (width: int)

definition Float16 :: numeric where "Float16 = Numeric 16"
definition BFloat16 :: numeric where "BFloat16 = Numeric 16"
definition Float32 :: numeric where "Float32 = Numeric 32"
definition Int64 :: numeric where "Int64 = Numeric 64"

text \<open>Modelled from the spec: the hardware warp size \<^verbatim>\<open>cute.arch.WARP_SIZE\<close>, a constant of
  the accelerator library; it is 32 threads.\<close>

definition WARP_SIZE :: int where "WARP_SIZE = 32"

section \<open>Layouts of the accelerator library\<close>

text \<open>
  A shape, a stride and a coordinate are nested tuples of integers.
\<close>

datatype int_tuple = Leaf int | Tuple "int_tuple list"

record layout =
  shape :: int_tuple
  stride :: int_tuple

text \<open>Modelled from the spec: \<^verbatim>\<open>cute.size\<close>, the number of coordinates of a shape, the
  product of its leaves.\<close>

fun size_it :: "int_tuple \<Rightarrow> int"
  and size_list :: "int_tuple list \<Rightarrow> int" where
  "size_it (Leaf n) = n"
| "size_it (Tuple xs) = size_list xs"
| "size_list [] = 1"
| "size_list (x # xs) = size_it x * size_list xs"

text \<open>Python's subscript on a nested tuple: an integer is not subscriptable, an index past
  the end raises.\<close>

fun get_item :: "int_tuple \<Rightarrow> nat \<Rightarrow> error + int_tuple" where
  "get_item (Leaf n) i = Inl TypeError"
| "get_item (Tuple xs) i = (if i < length xs then Inr (xs ! i) else Inl IndexError)"

text \<open>Modelled from the spec: the offset a layout gives to a coordinate, the inner product
  of the coordinate with the strides. An integer coordinate against a tuple shape is first
  split over the modes of the shape, the leftmost mode varying fastest. The library asserts
  that coordinate, shape and stride are congruent; the model returns 0 where they are not.\<close>

fun crd2idx :: "int_tuple \<Rightarrow> int_tuple \<Rightarrow> int_tuple \<Rightarrow> int"
  and crd2idx_tuple :: "int_tuple list \<Rightarrow> int_tuple list \<Rightarrow> int_tuple list \<Rightarrow> int"
  and crd2idx_int :: "int \<Rightarrow> int_tuple list \<Rightarrow> int_tuple list \<Rightarrow> int" where
  "crd2idx (Leaf c) (Leaf s) (Leaf d) = c * d"
| "crd2idx (Leaf c) (Tuple ss) (Tuple ds) = crd2idx_int c ss ds"
| "crd2idx (Tuple cs) (Tuple ss) (Tuple ds) = crd2idx_tuple cs ss ds"
| "crd2idx _ _ _ = 0"
| "crd2idx_tuple (c # cs) (s # ss) (d # ds) = crd2idx c s d + crd2idx_tuple cs ss ds"
| "crd2idx_tuple _ _ _ = 0"
| "crd2idx_int c [s] [d] = crd2idx (Leaf c) s d"
| "crd2idx_int c (s # ss) (d # ds) =
     crd2idx (Leaf (c mod size_it s)) s d + crd2idx_int (c div size_it s) ss ds"
| "crd2idx_int c _ _ = 0"

definition layout_at :: "layout \<Rightarrow> int_tuple \<Rightarrow> int" where
  "layout_at l c = crd2idx c (shape l) (stride l)"

text \<open>Modelled from the spec: \<^verbatim>\<open>cute.make_layout\<close> with explicit strides pairs a shape with
  them; without strides it gives the compact layout whose leftmost mode varies fastest.\<close>

fun compact_col_major :: "int_tuple \<Rightarrow> int \<Rightarrow> int_tuple"
  and compact_col_major_list :: "int_tuple list \<Rightarrow> int \<Rightarrow> int_tuple list" where
  "compact_col_major (Leaf n) cur = Leaf cur"
| "compact_col_major (Tuple xs) cur = Tuple (compact_col_major_list xs cur)"
| "compact_col_major_list [] cur = []"
| "compact_col_major_list (x # xs) cur =
     compact_col_major x cur # compact_col_major_list xs (cur * size_it x)"

definition make_layout :: "int_tuple \<Rightarrow> int_tuple option \<Rightarrow> layout" where
  "make_layout sh st =
     (case st of
        Some d \<Rightarrow> \<lparr>shape = sh, stride = d\<rparr>
      | None \<Rightarrow> \<lparr>shape = sh, stride = compact_col_major sh 1\<rparr>)"

text \<open>Modelled from the spec: \<^verbatim>\<open>cute.make_ordered_layout\<close> gives a compact layout whose
  modes are iterated in the given order: the mode with the smallest order number varies
  fastest, and a mode's stride is the product of the sizes of the modes ordered before it.\<close>

definition ordered_stride :: "int_tuple list \<Rightarrow> nat list \<Rightarrow> nat \<Rightarrow> int_tuple" where
  "ordered_stride modes order i =
     compact_col_major (modes ! i)
       (prod_list (map (\<lambda>j. size_it (modes ! j))
          (filter (\<lambda>j. order ! j < order ! i) [0..<length modes])))"

definition make_ordered_layout :: "int_tuple list \<Rightarrow> nat list \<Rightarrow> layout" where
  "make_ordered_layout modes order =
     \<lparr>shape = Tuple modes,
      stride = Tuple (map (ordered_stride modes order) [0..<length modes])\<rparr>"

text \<open>Modelled from the spec: \<^verbatim>\<open>cute.cosize\<close>, one more than the offset of the last
  coordinate, and \<^verbatim>\<open>cute.size_in_bytes\<close>, the bytes a layout of elements of a type spans.\<close>

definition cosize :: "layout \<Rightarrow> int" where
  "cosize l = layout_at l (Leaf (size_it (shape l) - 1)) + 1"

definition size_in_bytes :: "numeric \<Rightarrow> layout \<Rightarrow> int" where
  "size_in_bytes dt l = cosize l * width dt div 8"

text \<open>Modelled from the spec: \<^verbatim>\<open>cute.ceil_div\<close>, the ceiling of a quotient; a zero divisor
  is an error.\<close>

definition ceil_div :: "int \<Rightarrow> int \<Rightarrow> error + int" where
  "ceil_div a b = (if b = 0 then Inl ZeroDivisionError else Inr (- ((- a) div b)))"

text \<open>Modelled from the spec: \<^verbatim>\<open>quack.utils.max_constexpr\<close>, the larger of two
  compile-time integers.\<close>

definition max_constexpr :: "int \<Rightarrow> int \<Rightarrow> int" where
  "max_constexpr a b = max a b"

section \<open>The class ReductionBase\<close>

text \<open>
  The constructor stores four attributes. The attribute \<^verbatim>\<open>cluster_n\<close> does not exist until
  \<^verbatim>\<open>_set_cluster_n\<close> (or an override of it) has run, so reading it before raises.
\<close>

record reduction_base =
  dtype :: numeric
  N :: int
  stage :: int
  reduction_dtype :: numeric
  cluster_n :: "int option"

definition init :: "numeric \<Rightarrow> int \<Rightarrow> int \<Rightarrow> numeric option \<Rightarrow> reduction_base" where
  "init dt n st rd =
     \<lparr>dtype = dt, N = n, stage = st,
      reduction_dtype = (case rd of None \<Rightarrow> Float32 | Some r \<Rightarrow> r),
      cluster_n = None\<rparr>"

definition calculate_threads_per_row :: "reduction_base \<Rightarrow> error + int" where
  "calculate_threads_per_row self = Inl NotImplementedError"

definition set_cluster_n :: "reduction_base \<Rightarrow> reduction_base" where
  "set_cluster_n self = self\<lparr>cluster_n := Some 1\<rparr>"

definition get_num_threads :: "reduction_base \<Rightarrow> int" where
  "get_num_threads self = (if N self \<le> 16384 then 128 else 256)"

definition divisibility_message :: "int \<Rightarrow> int \<Rightarrow> string" where
  "divisibility_message n vecsize =
     ''Input N '' @ str_int n @ '' is not divisible by vector size '' @ str_int vecsize"

text \<open>
  \<^verbatim>\<open>_get_tv_layout\<close> calls two methods a kernel class may override: the thread count and the
  threads per row. They are the first two arguments; the class itself supplies
  \<open>get_num_threads\<close> and \<open>calculate_threads_per_row\<close>.
\<close>

definition get_tv_layout ::
  "(reduction_base \<Rightarrow> int) \<Rightarrow> (reduction_base \<Rightarrow> error + int) \<Rightarrow> reduction_base
     \<Rightarrow> error + ((int \<times> int) \<times> layout)" where
  "get_tv_layout num_threads_method threads_per_row_method self =
     (let copy_bits = 128 in
      if width (dtype self) = 0 then Inl ZeroDivisionError
      else
        let vecsize = copy_bits div width (dtype self) in
        if vecsize = 0 then Inl ZeroDivisionError
        else if N self mod vecsize \<noteq> 0
          then Inl (AssertionError (divisibility_message (N self) vecsize))
        else
          let num_threads = num_threads_method self in
          if num_threads mod WARP_SIZE \<noteq> 0 then Inl (AssertionError [])
          else
            case threads_per_row_method self of
              Inl e \<Rightarrow> Inl e
            | Inr threads_per_row \<Rightarrow>
                (case cluster_n self of
                   None \<Rightarrow> Inl AttributeError
                 | Some cn \<Rightarrow>
                     (case ceil_div (N self div vecsize) (threads_per_row * cn) of
                        Inl e \<Rightarrow> Inl e
                      | Inr num_blocks_N \<Rightarrow>
                          if threads_per_row = 0 then Inl ZeroDivisionError
                          else
                            let cols_per_block = num_threads div threads_per_row;
                                tiler_mn =
                                  (cols_per_block, vecsize * num_blocks_N * threads_per_row);
                                tv_layout =
                                  make_layout
                                    (Tuple [Tuple [Leaf cols_per_block, Leaf threads_per_row],
                                            Tuple [Leaf vecsize, Leaf num_blocks_N]])
                                    (Some (Tuple
                                       [Tuple [Leaf 1, Leaf (vecsize * cols_per_block)],
                                        Tuple [Leaf cols_per_block,
                                               Leaf (cols_per_block * vecsize * threads_per_row)]]))
                            in Inr (tiler_mn, tv_layout))))"

text \<open>\<^verbatim>\<open>_smem_size_in_bytes\<close>: the tile, the reduction scratch and one 64-bit word per stage.\<close>

definition smem_size_in_bytes :: "reduction_base \<Rightarrow> int \<times> int \<Rightarrow> int \<Rightarrow> error + int" where
  "smem_size_in_bytes self tiler_mn num_warps =
     (case cluster_n self of
        None \<Rightarrow> Inl AttributeError
      | Some cn \<Rightarrow>
          Inr (size_in_bytes (dtype self)
                 (make_layout (Tuple [Leaf (fst tiler_mn), Leaf (snd tiler_mn)]) None)
               + stage self * num_warps * cn * (width (reduction_dtype self) div 8)
               + stage self * (width Int64 div 8)))"

text \<open>\<^verbatim>\<open>_get_reduction_buffer_layout\<close> reads the thread mode of the layout it is given; the
  cluster size is an argument here, not the attribute.\<close>

definition get_reduction_buffer_layout ::
  "reduction_base \<Rightarrow> layout \<Rightarrow> int \<Rightarrow> error + layout" where
  "get_reduction_buffer_layout self tv_layout cn =
     (case get_item (shape tv_layout) 0 of
        Inl e \<Rightarrow> Inl e
      | Inr mode0 \<Rightarrow>
          let num_warps = size_it mode0 div WARP_SIZE in
          (case get_item mode0 0 of
             Inl e \<Rightarrow> Inl e
           | Inr (Tuple ts) \<Rightarrow> Inl TypeError
           | Inr (Leaf s00) \<Rightarrow>
               let warps_per_row = max_constexpr (s00 div WARP_SIZE) 1 in
               Inr (make_ordered_layout
                      [Leaf (num_warps div warps_per_row),
                       Tuple [Leaf warps_per_row, Leaf cn],
                       Leaf (stage self)]
                      [1, 0, 2])))"

section \<open>Scratch allocation and barrier set-up\<close>

text \<open>Modelled from the spec: the scratch allocator hands out addressable handles for a
  tensor of a given type, layout and alignment and for an array of a given length. The
  model records every request in order; a handle names its request and an element offset
  from its start.\<close>

datatype pointer = Pointer nat int

datatype allocation =
    TensorAllocation numeric layout int
  | ArrayAllocation numeric int

record smem_allocator =
  allocations :: "allocation list"

record tensor =
  iterator :: pointer
  tensor_layout :: layout

definition allocate_tensor ::
  "smem_allocator \<Rightarrow> numeric \<Rightarrow> layout \<Rightarrow> int \<Rightarrow> tensor \<times> smem_allocator" where
  "allocate_tensor smem dt l byte_alignment =
     (\<lparr>iterator = Pointer (length (allocations smem)) 0, tensor_layout = l\<rparr>,
      smem\<lparr>allocations := allocations smem @ [TensorAllocation dt l byte_alignment]\<rparr>)"

definition allocate_array ::
  "smem_allocator \<Rightarrow> numeric \<Rightarrow> int \<Rightarrow> pointer \<times> smem_allocator" where
  "allocate_array smem dt num_elems =
     (Pointer (length (allocations smem)) 0,
      smem\<lparr>allocations := allocations smem @ [ArrayAllocation dt num_elems]\<rparr>)"

text \<open>Adding an integer to a pointer moves it by that many elements; adding to \<^verbatim>\<open>None\<close>
  raises.\<close>

fun pointer_add :: "pointer option \<Rightarrow> int \<Rightarrow> error + pointer" where
  "pointer_add None i = Inl TypeError"
| "pointer_add (Some (Pointer a off)) i = Inr (Pointer a (off + i))"

text \<open>\<^verbatim>\<open>_allocate_reduction_buffer_and_mbar\<close> returns the two handles and the allocator
  after the requests.\<close>

definition allocate_reduction_buffer_and_mbar ::
  "reduction_base \<Rightarrow> smem_allocator \<Rightarrow> layout
     \<Rightarrow> error + ((tensor \<times> pointer option) \<times> smem_allocator)" where
  "allocate_reduction_buffer_and_mbar self smem tv_layout =
     (case cluster_n self of
        None \<Rightarrow> Inl AttributeError
      | Some cn \<Rightarrow>
          (case get_reduction_buffer_layout self tv_layout cn of
             Inl e \<Rightarrow> Inl e
           | Inr l \<Rightarrow>
               let (reduction_buffer, smem1) = allocate_tensor smem (reduction_dtype self) l 4
               in if cn > 1
                  then let (mbar_ptr, smem2) = allocate_array smem1 Int64 (stage self)
                       in Inr ((reduction_buffer, Some mbar_ptr), smem2)
                  else Inr ((reduction_buffer, None), smem1)))"

text \<open>
  \<^verbatim>\<open>_initialize_cluster\<close> as one thread runs it: the result is the sequence of accelerator
  primitives the thread issues, in program order. The thread index is a 32-bit value that
  is only compared and added to a pointer, so it is an \<open>int\<close> here.
\<close>

datatype arch_op =
    mbarrier_init_arrive_cnt pointer int
  | mbarrier_init_fence
  | mbarrier_init_tx_bytes pointer int
  | cluster_arrive_relaxed

definition initialize_cluster ::
  "reduction_base \<Rightarrow> int \<Rightarrow> pointer option \<Rightarrow> int \<Rightarrow> error + arch_op list" where
  "initialize_cluster self tidx mbar_ptr num_warps =
     (case cluster_n self of
        None \<Rightarrow> Inl AttributeError
      | Some cn \<Rightarrow>
          if cn > 1 then
            (case (if tidx < stage self
                   then (case pointer_add mbar_ptr tidx of
                           Inl e \<Rightarrow> Inl e
                         | Inr p \<Rightarrow> Inr [mbarrier_init_arrive_cnt p 1])
                   else Inr []) of
               Inl e \<Rightarrow> Inl e
             | Inr issued1 \<Rightarrow>
                 let issued2 = issued1 @ [mbarrier_init_fence] in
                 (case (if tidx < stage self
                        then (case pointer_add mbar_ptr tidx of
                                Inl e \<Rightarrow> Inl e
                              | Inr p \<Rightarrow>
                                  Inr (issued2 @
                                       [mbarrier_init_tx_bytes p
                                          (num_warps * cn * width (reduction_dtype self) div 8)]))
                        else Inr issued2) of
                    Inl e \<Rightarrow> Inl e
                  | Inr issued3 \<Rightarrow> Inr (issued3 @ [cluster_arrive_relaxed])))
          else Inr [])"

section \<open>Concrete kernels for the examples\<close>

text \<open>A kernel class whose override of \<^verbatim>\<open>_calculate_threads_per_row\<close> returns a constant.\<close>

definition fixed_threads_per_row :: "int \<Rightarrow> reduction_base \<Rightarrow> error + int" where
  "fixed_threads_per_row n self = Inr n"

text \<open>A kernel class whose override of \<^verbatim>\<open>_get_num_threads\<close> returns a constant.\<close>

definition fixed_num_threads :: "int \<Rightarrow> reduction_base \<Rightarrow> int" where
  "fixed_num_threads n self = n"

text \<open>An object after construction and \<^verbatim>\<open>_set_cluster_n\<close>, and one whose class sets another
  cluster size.\<close>

definition configured :: "numeric \<Rightarrow> int \<Rightarrow> int \<Rightarrow> reduction_base" where
  "configured dt n st = set_cluster_n (init dt n st None)"

definition configured_cluster :: "numeric \<Rightarrow> int \<Rightarrow> int \<Rightarrow> int \<Rightarrow> reduction_base" where
  "configured_cluster dt n st cn = (init dt n st None)\<lparr>cluster_n := Some cn\<rparr>"

text \<open>The offset a thread-value layout gives to value \<open>(v, b)\<close> of thread \<open>t\<close>.\<close>

definition tv_offset :: "layout \<Rightarrow> int \<Rightarrow> int \<Rightarrow> int \<Rightarrow> int" where
  "tv_offset l t v b = layout_at l (Tuple [Leaf t, Tuple [Leaf v, Leaf b]])"

text \<open>
  Auxiliary to the proofs: the offset of the planner's layout written out for \<open>R\<close> rows
  per block, \<open>P\<close> threads per row and vector width \<open>V\<close>, and the coordinate that is sent
  to a given offset.
\<close>

definition tv_index :: "int \<Rightarrow> int \<Rightarrow> int \<Rightarrow> int \<times> int \<times> int \<Rightarrow> int" where
  "tv_index R P V = (\<lambda>(t, v, b). t mod R + (t div R) * (V * R) + v * R + b * (R * V * P))"

definition tv_coord :: "int \<Rightarrow> int \<Rightarrow> int \<Rightarrow> int \<Rightarrow> int \<times> int \<times> int" where
  "tv_coord R P V x = (x mod R + R * (x div R div V mod P), x div R mod V, x div R div V div P)"

section \<open>Evaluation rules and shared lemmas\<close>

lemmas cfg_defs = configured_def configured_cluster_def init_def set_cluster_n_def
  Float16_def BFloat16_def Float32_def Int64_def fixed_threads_per_row_def
  fixed_num_threads_def

lemma cosize_compact_pair:
  "cosize (make_layout (Tuple [Leaf m, Leaf n]) None) = m * n"
proof -
  have "(m * n - 1) mod m + (m * n - 1) div m * m = m * n - 1"
    by (simp add: mod_div_mult_eq)
  then show ?thesis
    by (simp add: cosize_def make_layout_def layout_at_def)
qed

lemma divisibility_message_nonempty: "divisibility_message n v \<noteq> []"
  by (simp add: divisibility_message_def)

lemma get_tv_layout_not_divisible:
  assumes "width (dtype self) \<noteq> 0" and "128 div width (dtype self) \<noteq> 0"
    and "N self mod (128 div width (dtype self)) \<noteq> 0"
  shows "get_tv_layout ntm tprm self =
           Inl (AssertionError (divisibility_message (N self) (128 div width (dtype self))))"
  using assms by (simp add: get_tv_layout_def Let_def)

lemma get_tv_layout_success:
  assumes "width (dtype self) \<noteq> 0" and "128 div width (dtype self) \<noteq> 0"
    and "N self mod (128 div width (dtype self)) = 0"
    and "ntm self mod WARP_SIZE = 0"
    and "tprm self = Inr tpr" and "cluster_n self = Some cn" and "tpr * cn \<noteq> 0"
  shows "get_tv_layout ntm tprm self =
           Inr ((ntm self div tpr,
                 (128 div width (dtype self))
                   * (- ((- (N self div (128 div width (dtype self)))) div (tpr * cn))) * tpr),
                \<lparr>shape = Tuple [Tuple [Leaf (ntm self div tpr), Leaf tpr],
                                Tuple [Leaf (128 div width (dtype self)),
                                       Leaf (- ((- (N self div (128 div width (dtype self))))
                                                div (tpr * cn)))]],
                 stride = Tuple [Tuple [Leaf 1, Leaf ((128 div width (dtype self)) * (ntm self div tpr))],
                                 Tuple [Leaf (ntm self div tpr),
                                        Leaf ((ntm self div tpr) * (128 div width (dtype self)) * tpr)]]\<rparr>)"
  using assms by (simp add: get_tv_layout_def Let_def ceil_div_def make_layout_def)

lemma vecsize_nonzero: "0 < w \<and> w \<le> 128 \<Longrightarrow> (128::int) div w \<noteq> 0"
proof
  assume a: "0 < w \<and> w \<le> 128" and z: "(128::int) div w = 0"
  have "128 = 128 div w * w + 128 mod w" by simp
  with z have "128 mod w = 128" by simp
  moreover have "128 mod w < w" using a by simp
  ultimately show False using a by simp
qed

lemma get_tv_layout_shape:
  assumes "get_tv_layout ntm tprm self = Inr (tiler, tv)"
  shows "\<exists>cpb tpr vec nb. shape tv = Tuple [Tuple [Leaf cpb, Leaf tpr], Tuple [Leaf vec, Leaf nb]]"
  using assms
  by (auto simp: get_tv_layout_def Let_def make_layout_def split: if_splits sum.splits option.splits)

lemma get_reduction_buffer_layout_planned:
  assumes "shape tv = Tuple [Tuple [Leaf cpb, Leaf tpr], vs]"
  shows "get_reduction_buffer_layout self tv cn =
           Inr (make_ordered_layout
                  [Leaf (cpb * tpr div WARP_SIZE div max (cpb div WARP_SIZE) 1),
                   Tuple [Leaf (max (cpb div WARP_SIZE) 1), Leaf cn],
                   Leaf (stage self)]
                  [1, 0, 2])"
  using assms by (simp add: get_reduction_buffer_layout_def Let_def max_constexpr_def)

lemma div_bound:
  fixes R :: int
  assumes "0 < R" "0 \<le> x" "x < R * M"
  shows "0 \<le> x div R" "x div R < M"
proof -
  show "0 \<le> x div R" using assms by (simp add: pos_imp_zdiv_nonneg_iff)
  define q where "q = x div R"
  define r where "r = x mod R"
  have e: "x = R * q + r" unfolding q_def r_def by simp
  have r: "0 \<le> r" using assms unfolding r_def by simp
  show "x div R < M"
  proof (rule ccontr)
    assume "\<not> x div R < M"
    then have "M \<le> q" unfolding q_def by simp
    then have "R * M \<le> R * q" using assms(1) by (simp add: mult_left_mono)
    with e r assms(3) show False by simp
  qed
qed

lemma digit_bound:
  fixes R :: int
  assumes "0 < R" "0 \<le> c" "c < R" "0 \<le> x" "x < M"
  shows "0 \<le> c + R * x" "c + R * x < R * M"
proof -
  show "0 \<le> c + R * x" using assms by simp
  have "x + 1 \<le> M" using assms by simp
  then have "R * (x + 1) \<le> R * M" using assms(1) by (simp add: mult_left_mono)
  then show "c + R * x < R * M" using assms(3) by (simp add: algebra_simps)
qed

lemma digit_split:
  fixes R :: int
  assumes "0 < R" "0 \<le> c" "c < R"
  shows "(c + R * x) mod R = c" "(c + R * x) div R = x"
  using assms by simp_all

lemma tv_index_nested:
  "tv_index R P V (t, v, b) = t mod R + R * (v + V * (t div R + P * b))"
  by (simp add: tv_index_def algebra_simps)

lemma tv_index_bij:
  fixes R P V B :: int
  assumes pos: "0 < R" "0 < P" "0 < V"
  shows "bij_betw (tv_index R P V) ({0..<R * P} \<times> {0..<V} \<times> {0..<B}) {0..<R * (V * (P * B))}"
proof (rule bij_betw_byWitness [where f' = "tv_coord R P V"])
  show "\<forall>a\<in>{0..<R * P} \<times> {0..<V} \<times> {0..<B}. tv_coord R P V (tv_index R P V a) = a"
  proof
    fix a assume a: "a \<in> {0..<R * P} \<times> {0..<V} \<times> {0..<B}"
    obtain t v b where abc: "a = (t, v, b)" by (cases a) auto
    from a abc have t: "0 \<le> t" "t < R * P" and v: "0 \<le> v" "v < V" and b: "0 \<le> b" "b < B"
      by auto
    have c: "0 \<le> t mod R" "t mod R < R" using pos by simp_all
    have j: "0 \<le> t div R" "t div R < P" using div_bound [OF pos(1) t] by simp_all
    define X where "X = v + V * (t div R + P * b)"
    have x: "tv_index R P V (t, v, b) = t mod R + R * X"
      unfolding X_def by (rule tv_index_nested)
    have 1: "(t mod R + R * X) mod R = t mod R" "(t mod R + R * X) div R = X"
      using digit_split [OF pos(1) c] by simp_all
    have 2: "X mod V = v" "X div V = t div R + P * b"
      unfolding X_def using digit_split [OF pos(3) v] by simp_all
    have 3: "(t div R + P * b) mod P = t div R" "(t div R + P * b) div P = b"
      using digit_split [OF pos(2) j] by simp_all
    show "tv_coord R P V (tv_index R P V a) = a"
      unfolding abc x using j by (simp add: tv_coord_def 1 2 3)
  qed
next
  show "\<forall>a'\<in>{0..<R * (V * (P * B))}. tv_index R P V (tv_coord R P V a') = a'"
  proof
    fix x assume "x \<in> {0..<R * (V * (P * B))}"
    have c: "0 \<le> x mod R" "x mod R < R" using pos by simp_all
    have j: "0 \<le> x div R div V mod P" "x div R div V mod P < P" using pos by simp_all
    have s: "(x mod R + R * (x div R div V mod P)) mod R = x mod R"
      "(x mod R + R * (x div R div V mod P)) div R = x div R div V mod P"
      using digit_split [OF pos(1) c] by simp_all
    have "tv_index R P V (tv_coord R P V x) =
        x mod R + R * (x div R mod V + V * (x div R div V mod P + P * (x div R div V div P)))"
      unfolding tv_coord_def tv_index_nested s ..
    also have "\<dots> = x mod R + R * (x div R mod V + V * (x div R div V))" by simp
    also have "\<dots> = x mod R + R * (x div R)" by simp
    also have "\<dots> = x" by simp
    finally show "tv_index R P V (tv_coord R P V x) = x" .
  qed
next
  show "tv_index R P V ` ({0..<R * P} \<times> {0..<V} \<times> {0..<B}) \<subseteq> {0..<R * (V * (P * B))}"
  proof
    fix y assume "y \<in> tv_index R P V ` ({0..<R * P} \<times> {0..<V} \<times> {0..<B})"
    then obtain t v b where y: "y = tv_index R P V (t, v, b)"
      and t: "0 \<le> t" "t < R * P" and v: "0 \<le> v" "v < V" and b: "0 \<le> b" "b < B"
      by auto
    have c: "0 \<le> t mod R" "t mod R < R" using pos by simp_all
    have j: "0 \<le> t div R" "t div R < P" using div_bound [OF pos(1) t] by simp_all
    have 1: "0 \<le> t div R + P * b" "t div R + P * b < P * B"
      using digit_bound [OF pos(2) j b] by simp_all
    have 2: "0 \<le> v + V * (t div R + P * b)" "v + V * (t div R + P * b) < V * (P * B)"
      using digit_bound [OF pos(3) v 1] by simp_all
    have "0 \<le> y" "y < R * (V * (P * B))"
      unfolding y tv_index_nested using digit_bound [OF pos(1) c 2] by simp_all
    then show "y \<in> {0..<R * (V * (P * B))}" by simp
  qed
next
  show "tv_coord R P V ` {0..<R * (V * (P * B))} \<subseteq> {0..<R * P} \<times> {0..<V} \<times> {0..<B}"
  proof
    fix a assume "a \<in> tv_coord R P V ` {0..<R * (V * (P * B))}"
    then obtain x where a: "a = tv_coord R P V x" and x: "0 \<le> x" "x < R * (V * (P * B))"
      by auto
    have c: "0 \<le> x mod R" "x mod R < R" using pos by simp_all
    have j: "0 \<le> x div R div V mod P" "x div R div V mod P < P" using pos by simp_all
    have 1: "0 \<le> x div R" "x div R < V * (P * B)" using div_bound [OF pos(1) x] by simp_all
    have 2: "0 \<le> x div R div V" "x div R div V < P * B" using div_bound [OF pos(3) 1] by simp_all
    have 3: "0 \<le> x div R div V div P" "x div R div V div P < B"
      using div_bound [OF pos(2) 2] by simp_all
    have t: "0 \<le> x mod R + R * (x div R div V mod P)" "x mod R + R * (x div R div V mod P) < R * P"
      using digit_bound [OF pos(1) c j] by simp_all
    have v: "0 \<le> x div R mod V" "x div R mod V < V" using pos by simp_all
    show "a \<in> {0..<R * P} \<times> {0..<V} \<times> {0..<B}"
      unfolding a tv_coord_def using t v 3 by simp
  qed
qed

lemma ceil_bounds:
  fixes M D :: int
  assumes "0 < D"
  shows "M \<le> (- ((- M) div D)) * D" "(- ((- M) div D)) * D < M + D"
proof -
  define q where "q = (- M) div D"
  define r where "r = (- M) mod D"
  have e: "- M = q * D + r" unfolding q_def r_def by simp
  have r: "0 \<le> r" "r < D" using assms unfolding r_def by simp_all
  show "M \<le> (- ((- M) div D)) * D" using e r unfolding q_def [symmetric] by simp
  show "(- ((- M) div D)) * D < M + D" using e r unfolding q_def [symmetric] by simp
qed

lemma bij_betw_unique_preimage:
  assumes "bij_betw f A B" and "k \<in> B"
  shows "\<exists>!a. a \<in> A \<and> f a = k"
proof -
  from assms have "k \<in> f ` A" by (simp add: bij_betw_def)
  then obtain a where a: "a \<in> A" "f a = k" by auto
  have "a' = a" if "a' \<in> A" "f a' = k" for a'
    using assms(1) a that by (auto simp: bij_betw_def dest: inj_onD)
  with a show ?thesis by blast
qed

lemma get_tv_layout_InrD:
  assumes "get_tv_layout ntm tprm self = Inr ((rows, cols), tv)"
    and "tprm self = Inr tpr" and "cluster_n self = Some cn"
    and "ceil_div (N self div (128 div width (dtype self))) (tpr * cn) = Inr nb"
  shows "128 div width (dtype self) \<noteq> 0"
    and "N self mod (128 div width (dtype self)) = 0"
    and "ntm self mod WARP_SIZE = 0"
    and "tpr * cn \<noteq> 0"
    and "nb = - ((- (N self div (128 div width (dtype self)))) div (tpr * cn))"
    and "rows = ntm self div tpr"
    and "cols = (128 div width (dtype self)) * nb * tpr"
    and "tv = \<lparr>shape = Tuple [Tuple [Leaf rows, Leaf tpr],
                                Tuple [Leaf (128 div width (dtype self)), Leaf nb]],
               stride = Tuple [Tuple [Leaf 1, Leaf ((128 div width (dtype self)) * rows)],
                               Tuple [Leaf rows,
                                      Leaf (rows * (128 div width (dtype self)) * tpr)]]\<rparr>"
  using assms
  by (auto simp: get_tv_layout_def Let_def make_layout_def ceil_div_def split: if_splits)

lemma tv_offset_planned:
  "tv_offset \<lparr>shape = Tuple [Tuple [Leaf R, Leaf P], Tuple [Leaf V, Leaf B]],
              stride = Tuple [Tuple [Leaf 1, Leaf (V * R)], Tuple [Leaf R, Leaf (R * V * P)]]\<rparr>
     t v b = tv_index R P V (t, v, b)"
  by (simp add: tv_offset_def layout_at_def tv_index_def)

lemma get_tv_layout_divisible_failures:
  assumes "width (dtype self) \<noteq> 0" and "128 div width (dtype self) \<noteq> 0"
    and "N self mod (128 div width (dtype self)) = 0"
    and "get_tv_layout ntm tprm self = Inl e"
  shows "e = AssertionError [] \<or> tprm self = Inl e \<or> e = AttributeError \<or> e = ZeroDivisionError"
  using assms
  by (auto simp: get_tv_layout_def Let_def ceil_div_def split: if_splits sum.splits option.splits)

lemma get_tv_layout_misaligned:
  assumes "width (dtype self) \<noteq> 0" and "128 div width (dtype self) \<noteq> 0"
    and "N self mod (128 div width (dtype self)) = 0"
    and "ntm self mod WARP_SIZE \<noteq> 0"
  shows "get_tv_layout ntm tprm self = Inl (AssertionError [])"
  using assms by (simp add: get_tv_layout_def Let_def)

section \<open>Thread count policy\<close>

text \<open>
  C7. \<^verbatim>\<open>_get_num_threads\<close> returns 128 when \<open>N \<le> 16384\<close> and 256 otherwise, for every
  \<open>N\<close>; at the threshold 16384 it returns 128 and at 16385 it returns 256.
\<close>

theorem get_num_threads_policy:
  "get_num_threads self = (if N self \<le> 16384 then 128 else 256)
   \<and> get_num_threads (init dt 16384 st rd) = 128
   \<and> get_num_threads (init dt 16385 st rd) = 256"
  by (simp add: get_num_threads_def init_def)

theorem get_num_threads_policy_witness:
  "get_num_threads (configured Float16 20000 1) = 256"
  using get_num_threads_policy [of "configured Float16 20000 1"]
  by (simp add: cfg_defs)

section \<open>The worked example of the planner\<close>

text \<open>
  C4. For \<open>N = 512\<close>, 16-bit elements, 32 threads per row and cluster size 1 the thread
  count is 128 and the planner returns the tile \<open>(4, 512)\<close> (4 rows per block, 2 blocks
  along the row, vector width 8) with the thread-value layout of shape
  \<open>((4, 32), (8, 2))\<close> and strides \<open>((1, 32), (4, 1024))\<close>.
\<close>

theorem get_tv_layout_example:
  "get_num_threads (configured Float16 512 st) = 128
   \<and> get_tv_layout get_num_threads (fixed_threads_per_row 32) (configured Float16 512 st) =
       Inr ((4, 512),
            \<lparr>shape = Tuple [Tuple [Leaf 4, Leaf 32], Tuple [Leaf 8, Leaf 2]],
             stride = Tuple [Tuple [Leaf 1, Leaf 32], Tuple [Leaf 4, Leaf 1024]]\<rparr>)"
  by (simp add: get_tv_layout_def get_num_threads_def cfg_defs WARP_SIZE_def ceil_div_def
      make_layout_def Let_def)

section \<open>Shared-memory size\<close>

text \<open>
  C5. For every tile shape and warp count, \<^verbatim>\<open>_smem_size_in_bytes\<close> returns the byte size
  of the tile laid out with the element type, plus stage count times warp count times
  cluster size times the accumulator width in bytes, plus 8 bytes per stage for the
  barrier words, whatever the data types are. The tile's bytes are rows times columns
  times the element width, divided by 8.
\<close>

theorem smem_size_in_bytes_formula:
  assumes "cluster_n self = Some cn"
  shows "smem_size_in_bytes self (m, n) num_warps =
           Inr (size_in_bytes (dtype self) (make_layout (Tuple [Leaf m, Leaf n]) None)
                + stage self * num_warps * cn * (width (reduction_dtype self) div 8)
                + stage self * 8)
         \<and> size_in_bytes (dtype self) (make_layout (Tuple [Leaf m, Leaf n]) None) =
             m * n * width (dtype self) div 8"
  using assms
  by (simp add: smem_size_in_bytes_def size_in_bytes_def cosize_compact_pair Int64_def)

theorem smem_size_in_bytes_formula_witness:
  "smem_size_in_bytes (configured Float16 512 2) (4, 512) 4 =
     Inr (4 * 512 * 16 div 8 + 2 * 4 * 1 * (32 div 8) + 2 * 8)"
  using smem_size_in_bytes_formula [of "configured Float16 512 2" 1 4 512 4]
  by (simp add: cfg_defs)

section \<open>Failures of the planner\<close>

text \<open>
  C6 (as amended). With an element type of 1 to 128 bits, so that the vector width
  128 div width is positive: when \<open>N\<close> is not a multiple of the vector width,
  \<^verbatim>\<open>_get_tv_layout\<close> raises the assertion error whose message gives \<open>N\<close> and the vector
  width, whatever the thread count, the threads per row and the cluster size are, and
  returns no layout; and unless the kernel's own threads-per-row method raises that very
  error, the planner ends in it exactly when \<open>N\<close> is not a multiple of the vector width.
  When \<open>N\<close> is a multiple and the thread count is not a multiple of the warp size, the
  planner fails by its second assertion. When \<open>N\<close> is a positive multiple, the thread
  count is a multiple of the warp size, and the kernel supplies threads per row between 1
  and the thread count and a positive cluster size, the planner returns the tile and the
  layout, all of whose extents are positive. For \<open>N = 510\<close> and 16-bit elements the
  message names 510 and 8.
\<close>

theorem get_tv_layout_divisibility:
  assumes "0 < width (dtype self)" and "width (dtype self) \<le> 128"
  shows "(N self mod (128 div width (dtype self)) \<noteq> 0 \<longrightarrow>
            get_tv_layout ntm tprm self =
              Inl (AssertionError
                     (''Input N '' @ str_int (N self) @ '' is not divisible by vector size ''
                        @ str_int (128 div width (dtype self)))))
         \<and> (tprm self \<noteq>
               Inl (AssertionError
                      (divisibility_message (N self) (128 div width (dtype self)))) \<longrightarrow>
              (get_tv_layout ntm tprm self =
                 Inl (AssertionError
                        (divisibility_message (N self) (128 div width (dtype self)))))
              = (N self mod (128 div width (dtype self)) \<noteq> 0))
         \<and> (N self mod (128 div width (dtype self)) = 0 \<and> ntm self mod WARP_SIZE \<noteq> 0 \<longrightarrow>
              get_tv_layout ntm tprm self = Inl (AssertionError []))
         \<and> (N self mod (128 div width (dtype self)) = 0 \<and> ntm self mod WARP_SIZE = 0
              \<and> tprm self = Inr tpr \<and> 0 < tpr \<and> tpr \<le> ntm self
              \<and> cluster_n self = Some cn \<and> 0 < cn \<and> 0 < N self
              \<and> ceil_div (N self div (128 div width (dtype self))) (tpr * cn) = Inr nb \<longrightarrow>
              0 < ntm self div tpr \<and> 0 < nb
              \<and> get_tv_layout ntm tprm self =
                  Inr ((ntm self div tpr, (128 div width (dtype self)) * nb * tpr),
                       \<lparr>shape = Tuple [Tuple [Leaf (ntm self div tpr), Leaf tpr],
                                       Tuple [Leaf (128 div width (dtype self)), Leaf nb]],
                        stride = Tuple [Tuple [Leaf 1,
                                               Leaf ((128 div width (dtype self))
                                                     * (ntm self div tpr))],
                                        Tuple [Leaf (ntm self div tpr),
                                               Leaf ((ntm self div tpr)
                                                     * (128 div width (dtype self)) * tpr)]]\<rparr>))"
proof -
  define V where "V = 128 div width (dtype self)"
  have w: "width (dtype self) \<noteq> 0" using assms by simp
  have v: "V \<noteq> 0" unfolding V_def using assms by (simp add: vecsize_nonzero)
  have Vpos: "0 < V"
  proof -
    have "0 \<le> V" unfolding V_def using assms(1) by (simp add: pos_imp_zdiv_nonneg_iff)
    with v show ?thesis by simp
  qed
  have c1: "get_tv_layout ntm tprm self = Inl (AssertionError (divisibility_message (N self) V))"
    if "N self mod V \<noteq> 0"
    using get_tv_layout_not_divisible [OF w, of ntm tprm] v that unfolding V_def by simp
  have c2: "N self mod V \<noteq> 0"
    if p: "tprm self \<noteq> Inl (AssertionError (divisibility_message (N self) V))"
      and e: "get_tv_layout ntm tprm self = Inl (AssertionError (divisibility_message (N self) V))"
  proof (rule ccontr)
    assume "\<not> N self mod V \<noteq> 0"
    then have n: "N self mod V = 0" by simp
    from get_tv_layout_divisible_failures [OF w v [unfolded V_def] n [unfolded V_def] e [unfolded V_def]]
      p divisibility_message_nonempty [of "N self" V]
    show False unfolding V_def by auto
  qed
  have c3: "get_tv_layout ntm tprm self = Inl (AssertionError [])"
    if "N self mod V = 0" "ntm self mod WARP_SIZE \<noteq> 0"
    using get_tv_layout_misaligned [OF w v [unfolded V_def], of ntm tprm] that
    unfolding V_def by simp
  have c4: "0 < ntm self div tpr \<and> 0 < nb
      \<and> get_tv_layout ntm tprm self =
          Inr ((ntm self div tpr, V * nb * tpr),
               \<lparr>shape = Tuple [Tuple [Leaf (ntm self div tpr), Leaf tpr],
                               Tuple [Leaf V, Leaf nb]],
                stride = Tuple [Tuple [Leaf 1, Leaf (V * (ntm self div tpr))],
                                Tuple [Leaf (ntm self div tpr),
                                       Leaf ((ntm self div tpr) * V * tpr)]]\<rparr>)"
    if h: "N self mod V = 0" "ntm self mod WARP_SIZE = 0" "tprm self = Inr tpr" "0 < tpr"
      "tpr \<le> ntm self" "cluster_n self = Some cn" "0 < cn" "0 < N self"
      "ceil_div (N self div V) (tpr * cn) = Inr nb"
  proof -
    have D: "0 < tpr * cn" using h(4) h(7) by simp
    have D0: "tpr * cn \<noteq> 0" using h(4) h(7) by simp
    have nbdef: "nb = - ((- (N self div V)) div (tpr * cn))"
      using h(9) D0 by (simp add: ceil_div_def)
    have rows: "0 < ntm self div tpr" using h(4) h(5) by (simp add: pos_imp_zdiv_pos_iff)
    have NV: "V * (N self div V) = N self" using h(1) by (simp add: mod_eq_0_iff_dvd)
    have M: "0 < N self div V"
    proof (rule ccontr)
      assume "\<not> 0 < N self div V"
      then have "N self div V \<le> 0" by simp
      then have "V * (N self div V) \<le> 0" using Vpos by (simp add: mult_le_0_iff)
      with NV h(8) show False by simp
    qed
    have "N self div V \<le> nb * (tpr * cn)" unfolding nbdef by (rule ceil_bounds(1) [OF D])
    with M have "0 < nb * (tpr * cn)" by simp
    then have nb: "0 < nb" using D by (simp add: zero_less_mult_iff)
    from get_tv_layout_success [of self ntm tprm tpr cn] w v h(1) h(2) h(3) h(6) D0 rows nb
    show ?thesis unfolding V_def nbdef by simp
  qed
  have k1: "N self mod V \<noteq> 0 \<longrightarrow>
      get_tv_layout ntm tprm self =
        Inl (AssertionError
               (''Input N '' @ str_int (N self) @ '' is not divisible by vector size ''
                  @ str_int V))"
    using c1 unfolding divisibility_message_def by simp
  have k2: "tprm self \<noteq> Inl (AssertionError (divisibility_message (N self) V)) \<longrightarrow>
      (get_tv_layout ntm tprm self = Inl (AssertionError (divisibility_message (N self) V)))
      = (N self mod V \<noteq> 0)"
  proof (intro impI iffI)
    assume "tprm self \<noteq> Inl (AssertionError (divisibility_message (N self) V))"
      and "get_tv_layout ntm tprm self = Inl (AssertionError (divisibility_message (N self) V))"
    then show "N self mod V \<noteq> 0" by (rule c2)
  next
    assume "N self mod V \<noteq> 0"
    then show "get_tv_layout ntm tprm self =
        Inl (AssertionError (divisibility_message (N self) V))" by (rule c1)
  qed
  have k3: "N self mod V = 0 \<and> ntm self mod WARP_SIZE \<noteq> 0 \<longrightarrow>
      get_tv_layout ntm tprm self = Inl (AssertionError [])"
    using c3 by simp
  show ?thesis
    unfolding V_def [symmetric]
  proof (intro conjI impI)
    show "N self mod V \<noteq> 0 \<Longrightarrow>
      get_tv_layout ntm tprm self =
        Inl (AssertionError
               (''Input N '' @ str_int (N self) @ '' is not divisible by vector size ''
                  @ str_int V))"
      using k1 by simp
    show "tprm self \<noteq> Inl (AssertionError (divisibility_message (N self) V)) \<Longrightarrow>
      (get_tv_layout ntm tprm self = Inl (AssertionError (divisibility_message (N self) V)))
      = (N self mod V \<noteq> 0)"
      using k2 by simp
    show "N self mod V = 0 \<and> ntm self mod WARP_SIZE \<noteq> 0 \<Longrightarrow>
      get_tv_layout ntm tprm self = Inl (AssertionError [])"
      using k3 by simp
  next
    assume h: "N self mod V = 0 \<and> ntm self mod WARP_SIZE = 0
              \<and> tprm self = Inr tpr \<and> 0 < tpr \<and> tpr \<le> ntm self
              \<and> cluster_n self = Some cn \<and> 0 < cn \<and> 0 < N self
              \<and> ceil_div (N self div V) (tpr * cn) = Inr nb"
    then have r: "0 < ntm self div tpr \<and> 0 < nb
      \<and> get_tv_layout ntm tprm self =
          Inr ((ntm self div tpr, V * nb * tpr),
               \<lparr>shape = Tuple [Tuple [Leaf (ntm self div tpr), Leaf tpr],
                               Tuple [Leaf V, Leaf nb]],
                stride = Tuple [Tuple [Leaf 1, Leaf (V * (ntm self div tpr))],
                                Tuple [Leaf (ntm self div tpr),
                                       Leaf ((ntm self div tpr) * V * tpr)]]\<rparr>)"
      by (intro c4) simp_all
    from r show "0 < ntm self div tpr" by simp
    from r show "0 < nb" by simp
    from r show "get_tv_layout ntm tprm self =
          Inr ((ntm self div tpr, V * nb * tpr),
               \<lparr>shape = Tuple [Tuple [Leaf (ntm self div tpr), Leaf tpr],
                               Tuple [Leaf V, Leaf nb]],
                stride = Tuple [Tuple [Leaf 1, Leaf (V * (ntm self div tpr))],
                                Tuple [Leaf (ntm self div tpr),
                                       Leaf ((ntm self div tpr) * V * tpr)]]\<rparr>)" by simp
  qed
qed

theorem get_tv_layout_divisibility_witness:
  "get_tv_layout get_num_threads (fixed_threads_per_row 32) (configured Float16 510 1) =
     Inl (AssertionError ''Input N 510 is not divisible by vector size 8'')
   \<and> get_tv_layout get_num_threads (fixed_threads_per_row 32) (configured Float16 512 1) \<noteq>
       Inl (AssertionError (divisibility_message 512 8))
   \<and> get_tv_layout (fixed_num_threads 100) (fixed_threads_per_row 32)
        (configured Float16 512 1) = Inl (AssertionError [])
   \<and> get_tv_layout get_num_threads (fixed_threads_per_row 32) (configured Float16 512 1) =
       Inr ((4, 512),
            \<lparr>shape = Tuple [Tuple [Leaf 4, Leaf 32], Tuple [Leaf 8, Leaf 2]],
             stride = Tuple [Tuple [Leaf 1, Leaf 32], Tuple [Leaf 4, Leaf 1024]]\<rparr>)"
proof -
  have m: "str_int 510 = ''510''" "str_int 8 = ''8''" by code_simp+
  have w510: "0 < width (dtype (configured Float16 510 1))"
    "width (dtype (configured Float16 510 1)) \<le> 128" by (simp_all add: cfg_defs)
  have w512: "0 < width (dtype (configured Float16 512 1))"
    "width (dtype (configured Float16 512 1)) \<le> 128" by (simp_all add: cfg_defs)
  have 1: "get_tv_layout get_num_threads (fixed_threads_per_row 32) (configured Float16 510 1) =
     Inl (AssertionError ''Input N 510 is not divisible by vector size 8'')"
    using get_tv_layout_divisibility [OF w510, of get_num_threads "fixed_threads_per_row 32" 32 1 2]
    by (simp add: cfg_defs m)
  have 2: "get_tv_layout get_num_threads (fixed_threads_per_row 32) (configured Float16 512 1) \<noteq>
       Inl (AssertionError (divisibility_message 512 8))"
    using get_tv_layout_divisibility [OF w512, of get_num_threads "fixed_threads_per_row 32" 32 1 2]
    by (simp add: cfg_defs)
  have 3: "get_tv_layout (fixed_num_threads 100) (fixed_threads_per_row 32)
        (configured Float16 512 1) = Inl (AssertionError [])"
    using get_tv_layout_divisibility [OF w512, of "fixed_num_threads 100" "fixed_threads_per_row 32" 32 1 2]
    by (simp add: cfg_defs WARP_SIZE_def)
  have 4: "get_tv_layout get_num_threads (fixed_threads_per_row 32) (configured Float16 512 1) =
       Inr ((4, 512),
            \<lparr>shape = Tuple [Tuple [Leaf 4, Leaf 32], Tuple [Leaf 8, Leaf 2]],
             stride = Tuple [Tuple [Leaf 1, Leaf 32], Tuple [Leaf 4, Leaf 1024]]\<rparr>)"
    using get_tv_layout_divisibility [OF w512, of get_num_threads "fixed_threads_per_row 32" 32 1 2]
    by (simp add: cfg_defs get_num_threads_def WARP_SIZE_def ceil_div_def)
  from 1 2 3 4 show ?thesis by simp
qed

text \<open>
  For \<open>N = 512\<close> and 16-bit elements \<open>N\<close> is a multiple of the vector width 8, and the
  planner still fails: by its second assertion for a kernel with 100 threads, and by the
  abstract threads-per-row method for the class itself.
\<close>

theorem planner_failure_counterexample:
  "N (configured Float16 512 1) mod (128 div width (dtype (configured Float16 512 1))) = 0
   \<and> get_tv_layout (fixed_num_threads 100) (fixed_threads_per_row 32)
        (configured Float16 512 1) = Inl (AssertionError [])
   \<and> get_tv_layout get_num_threads calculate_threads_per_row (configured Float16 512 1) =
        Inl NotImplementedError"
  by (simp add: get_tv_layout_def get_num_threads_def cfg_defs WARP_SIZE_def
      calculate_threads_per_row_def Let_def)

text \<open>
  C10. \<^verbatim>\<open>_get_num_threads\<close> returns 128 or 256, both multiples of the warp size, so with
  this thread count the bare assertion of \<^verbatim>\<open>_get_tv_layout\<close> never fails: the planner
  never ends in the error of that assertion unless the kernel's own threads-per-row method
  raises it, and for a positive vector width and a kernel that supplies non-zero threads
  per row and cluster size, every failure of the planner is the divisibility assertion.
\<close>

theorem alignment_assertion_unreachable:
  "get_num_threads self \<in> {128, 256}
   \<and> get_num_threads self mod WARP_SIZE = 0
   \<and> (tprm self \<noteq> Inl (AssertionError []) \<longrightarrow>
        get_tv_layout get_num_threads tprm self \<noteq> Inl (AssertionError []))
   \<and> (0 < width (dtype self) \<and> width (dtype self) \<le> 128
        \<and> tprm self = Inr tpr \<and> cluster_n self = Some cn \<and> tpr * cn \<noteq> 0
        \<and> get_tv_layout get_num_threads tprm self = Inl e \<longrightarrow>
        N self mod (128 div width (dtype self)) \<noteq> 0
        \<and> e = AssertionError (divisibility_message (N self) (128 div width (dtype self))))"
proof -
  have a: "get_num_threads self mod WARP_SIZE = 0"
    by (simp add: get_num_threads_def WARP_SIZE_def)
  have b: "tprm self \<noteq> Inl (AssertionError []) \<Longrightarrow>
        get_tv_layout get_num_threads tprm self \<noteq> Inl (AssertionError [])"
    using a divisibility_message_nonempty
    by (auto simp: get_tv_layout_def Let_def ceil_div_def split: sum.splits option.splits if_splits)
  have c: "N self mod (128 div width (dtype self)) \<noteq> 0
        \<and> e = AssertionError (divisibility_message (N self) (128 div width (dtype self)))"
    if h: "0 < width (dtype self)" "width (dtype self) \<le> 128"
        "tprm self = Inr tpr" "cluster_n self = Some cn" "tpr * cn \<noteq> 0"
        "get_tv_layout get_num_threads tprm self = Inl e"
  proof -
    have w: "width (dtype self) \<noteq> 0" using h by simp
    have v: "128 div width (dtype self) \<noteq> 0" using h(1,2) by (simp add: vecsize_nonzero)
    show ?thesis
      using get_tv_layout_not_divisible [OF w v, of get_num_threads tprm]
        get_tv_layout_success [of self get_num_threads tprm tpr cn] w v a h
      by (cases "N self mod (128 div width (dtype self)) = 0") auto
  qed
  show ?thesis using a b c by (simp add: get_num_threads_def)
qed

theorem alignment_assertion_unreachable_witness:
  "get_num_threads (configured Float16 510 1) mod WARP_SIZE = 0
   \<and> get_tv_layout get_num_threads (fixed_threads_per_row 32) (configured Float16 510 1)
       \<noteq> Inl (AssertionError [])
   \<and> get_tv_layout get_num_threads (fixed_threads_per_row 32) (configured Float16 510 1) =
       Inl (AssertionError (divisibility_message 510 8))"
proof -
  have e: "get_tv_layout get_num_threads (fixed_threads_per_row 32) (configured Float16 510 1) =
       Inl (AssertionError (divisibility_message 510 8))"
    by (simp add: get_tv_layout_def cfg_defs Let_def)
  show ?thesis
    using alignment_assertion_unreachable [of "configured Float16 510 1" "fixed_threads_per_row 32" 32 1
        "AssertionError (divisibility_message 510 8)"] e
    by (simp add: cfg_defs)
qed

section \<open>Barrier set-up in a cluster\<close>

text \<open>
  C8. When the cluster size is greater than 1, a thread running \<^verbatim>\<open>_initialize_cluster\<close>
  with a barrier handle issues, in this order and nothing else: if its index is below the
  stage count, the initialisation of the barrier at its index with arrival count 1; the
  fence; if its index is below the stage count, the expected byte count of the barrier at
  its index, which is warp count times cluster size times accumulator width in bits,
  divided by 8; the relaxed cluster arrive. For an accumulator of whole bytes the byte
  count is warp count times cluster size times the accumulator width in bytes.
\<close>

theorem initialize_cluster_sequence:
  assumes "cluster_n self = Some cn" and "1 < cn"
  shows "initialize_cluster self tidx (Some (Pointer a off)) num_warps =
           Inr ((if tidx < stage self
                 then [mbarrier_init_arrive_cnt (Pointer a (off + tidx)) 1] else [])
                @ [mbarrier_init_fence]
                @ (if tidx < stage self
                   then [mbarrier_init_tx_bytes (Pointer a (off + tidx))
                           (num_warps * cn * width (reduction_dtype self) div 8)]
                   else [])
                @ [cluster_arrive_relaxed])
         \<and> (width (reduction_dtype self) mod 8 = 0 \<longrightarrow>
              num_warps * cn * width (reduction_dtype self) div 8 =
                num_warps * cn * (width (reduction_dtype self) div 8))"
proof -
  have "num_warps * cn * width (reduction_dtype self) div 8 =
                num_warps * cn * (width (reduction_dtype self) div 8)"
    if "width (reduction_dtype self) mod 8 = 0"
  proof -
    from that obtain k where k: "width (reduction_dtype self) = 8 * k"
      by (auto simp: mod_eq_0_iff_dvd)
    show ?thesis unfolding k by simp
  qed
  then show ?thesis
    using assms by (simp add: initialize_cluster_def Let_def)
qed

theorem initialize_cluster_sequence_witness:
  "initialize_cluster (configured_cluster Float16 32768 2 2) 1 (Some (Pointer 1 0)) 8 =
     Inr [mbarrier_init_arrive_cnt (Pointer 1 1) 1, mbarrier_init_fence,
          mbarrier_init_tx_bytes (Pointer 1 1) (8 * 2 * (32 div 8)), cluster_arrive_relaxed]
   \<and> initialize_cluster (configured_cluster Float16 32768 2 2) 2 (Some (Pointer 1 0)) 8 =
     Inr [mbarrier_init_fence, cluster_arrive_relaxed]"
  using initialize_cluster_sequence [of "configured_cluster Float16 32768 2 2" 2 1 1 0 8]
    initialize_cluster_sequence [of "configured_cluster Float16 32768 2 2" 2 2 1 0 8]
  by (simp add: cfg_defs)

text \<open>
  C9. For a layout the planner returned, \<^verbatim>\<open>_allocate_reduction_buffer_and_mbar\<close> returns;
  it returns a barrier handle exactly when the cluster size is greater than 1. When the
  cluster size is 1 the only request to the allocator is the reduction buffer, and
  \<^verbatim>\<open>_initialize_cluster\<close> issues no primitive at all, whatever handle it is given.
\<close>

theorem no_barriers_without_cluster:
  assumes "get_tv_layout ntm tprm self = Inr (tiler, tv)" and "cluster_n self = Some cn"
  shows "\<exists>buf mbar smem'.
           allocate_reduction_buffer_and_mbar self smem tv = Inr ((buf, mbar), smem')
           \<and> (mbar = None \<longleftrightarrow> cn \<le> 1)
           \<and> (cn = 1 \<longrightarrow>
                allocations smem' =
                  allocations smem @ [TensorAllocation (reduction_dtype self) (tensor_layout buf) 4]
                \<and> initialize_cluster self tidx mbar num_warps = Inr []
                \<and> initialize_cluster self tidx other_ptr num_warps = Inr [])"
proof -
  from get_tv_layout_shape [OF assms(1)] obtain cpb tpr vec nb where
    sh: "shape tv = Tuple [Tuple [Leaf cpb, Leaf tpr], Tuple [Leaf vec, Leaf nb]]" by blast
  show ?thesis
    using assms(2) get_reduction_buffer_layout_planned [OF sh, of self cn]
    by (simp add: allocate_reduction_buffer_and_mbar_def allocate_tensor_def allocate_array_def
        initialize_cluster_def Let_def)
qed

theorem no_barriers_without_cluster_witness:
  "\<exists>buf smem'.
     allocate_reduction_buffer_and_mbar (configured Float16 512 1) \<lparr>allocations = []\<rparr>
        \<lparr>shape = Tuple [Tuple [Leaf 4, Leaf 32], Tuple [Leaf 8, Leaf 2]],
         stride = Tuple [Tuple [Leaf 1, Leaf 32], Tuple [Leaf 4, Leaf 1024]]\<rparr>
       = Inr ((buf, None), smem')
     \<and> allocations smem' = [TensorAllocation (reduction_dtype (configured Float16 512 1)) (tensor_layout buf) 4]
     \<and> initialize_cluster (configured Float16 512 1) 0 None 4 = Inr []"
proof -
  have p: "get_tv_layout get_num_threads (fixed_threads_per_row 32) (configured Float16 512 1) =
       Inr ((4, 512),
            \<lparr>shape = Tuple [Tuple [Leaf 4, Leaf 32], Tuple [Leaf 8, Leaf 2]],
             stride = Tuple [Tuple [Leaf 1, Leaf 32], Tuple [Leaf 4, Leaf 1024]]\<rparr>)"
    by (simp add: get_tv_layout_def get_num_threads_def cfg_defs WARP_SIZE_def ceil_div_def
      make_layout_def Let_def)
  have c: "cluster_n (configured Float16 512 1) = Some 1" by (simp add: cfg_defs)
  from no_barriers_without_cluster [OF p c, of "\<lparr>allocations = []\<rparr>" 0 4 None]
  show ?thesis by auto
qed

section \<open>The thread-value layout is one-to-one and onto\<close>

text \<open>
  C1 (as amended). Let the planner return the tile \<open>(rows, cols)\<close> and a thread-value
  layout for a kernel with positive threads per row and cluster size, a positive element
  width and a non-negative thread count. Then the layout has shape
  \<open>((rows, threads per row), (vector width, blocks))\<close>, and the map from a triple of
  thread index, vector slot and block chunk to its offset is a bijection from the triples
  of that shape onto the offsets from 0 up to the tile's capacity, rows times columns: no
  two triples share an offset and every offset below the capacity is reached. Element
  \<open>k\<close> of row \<open>r\<close> of the tile lies at the offset the tile's layout gives to \<open>(r, k)\<close>;
  when the tile has at least \<open>N\<close> columns, every element from 0 to \<open>N - 1\<close> of every row
  of the tile is reached by exactly one triple, and the tile has at least \<open>N\<close> columns
  when the cluster size is 1.
\<close>

theorem tv_layout_bijection:
  assumes plan: "get_tv_layout ntm tprm self = Inr ((rows, cols), tv)"
    and tpr: "tprm self = Inr tpr" "0 < tpr"
    and cn: "cluster_n self = Some cn" "0 < cn"
    and w: "0 < width (dtype self)"
    and nt: "0 \<le> ntm self"
    and nb: "ceil_div (N self div (128 div width (dtype self))) (tpr * cn) = Inr nb"
  shows "shape tv = Tuple [Tuple [Leaf rows, Leaf tpr],
                           Tuple [Leaf (128 div width (dtype self)), Leaf nb]]
         \<and> bij_betw (\<lambda>(t, v, b). tv_offset tv t v b)
              ({0..<rows * tpr} \<times> {0..<128 div width (dtype self)} \<times> {0..<nb})
              {0..<rows * cols}
         \<and> (N self \<le> cols \<longrightarrow>
              (\<forall>r\<in>{0..<rows}. \<forall>k\<in>{0..<N self}.
                 \<exists>!a. a \<in> {0..<rows * tpr} \<times> {0..<128 div width (dtype self)} \<times> {0..<nb}
                      \<and> (case a of (t, v, b) \<Rightarrow> tv_offset tv t v b) =
                          layout_at (make_layout (Tuple [Leaf rows, Leaf cols]) None)
                            (Tuple [Leaf r, Leaf k])))
         \<and> (cn = 1 \<longrightarrow> N self \<le> cols)"
proof -
  define V where "V = 128 div width (dtype self)"
  note d = get_tv_layout_InrD [OF plan tpr(1) cn(1) nb, folded V_def]
  have V: "0 < V"
  proof -
    have "0 \<le> V" unfolding V_def using w by (simp add: pos_imp_zdiv_nonneg_iff)
    with d(1) show ?thesis by simp
  qed
  have rows: "0 \<le> rows" unfolding d(6) using nt tpr(2) by (simp add: pos_imp_zdiv_nonneg_iff)
  have off: "(\<lambda>(t, v, b). tv_offset tv t v b) = tv_index rows tpr V"
    unfolding d(8) by (auto simp: tv_offset_planned)
  have cap: "rows * cols = rows * (V * (tpr * nb))" unfolding d(7) by simp
  have bij: "bij_betw (tv_index rows tpr V) ({0..<rows * tpr} \<times> {0..<V} \<times> {0..<nb})
               {0..<rows * cols}"
  proof (cases "rows = 0")
    case True
    then show ?thesis by (simp add: bij_betw_def)
  next
    case False
    with rows have "0 < rows" by simp
    from tv_index_bij [OF this tpr(2) V, of nb] show ?thesis unfolding cap .
  qed
  have tile: "layout_at (make_layout (Tuple [Leaf rows, Leaf cols]) None)
                 (Tuple [Leaf r, Leaf k]) = r + rows * k" for r k
    by (simp add: layout_at_def make_layout_def)
  have cover: "\<exists>!a. a \<in> {0..<rows * tpr} \<times> {0..<V} \<times> {0..<nb}
                 \<and> tv_index rows tpr V a = r + rows * k"
    if c: "N self \<le> cols" and r: "r \<in> {0..<rows}" and k: "k \<in> {0..<N self}" for r k
  proof -
    from r have r': "0 \<le> r" "r < rows" by simp_all
    then have R: "0 < rows" by simp
    from k c have k': "0 \<le> k" "k < cols" by simp_all
    have "0 \<le> r + rows * k" "r + rows * k < rows * cols"
      using digit_bound [OF R r' k'] by simp_all
    then have "r + rows * k \<in> {0..<rows * cols}" by simp
    with bij show ?thesis by (rule bij_betw_unique_preimage)
  qed
  have whole: "N self \<le> cols" if c: "cn = 1"
  proof -
    have D: "0 < tpr * cn" using tpr(2) cn(2) by simp
    have "N self div V \<le> nb * (tpr * cn)" unfolding d(5) by (rule ceil_bounds(1) [OF D])
    then have "V * (N self div V) \<le> V * (nb * (tpr * cn))" using V by (simp add: mult_left_mono)
    moreover have "V * (N self div V) = N self" using d(2) by (simp add: mod_eq_0_iff_dvd)
    ultimately show ?thesis unfolding d(7) c by (simp add: algebra_simps)
  qed
  show ?thesis
    unfolding off V_def [symmetric] tile using d(8) bij cover whole by simp
qed

theorem tv_layout_bijection_witness:
  "bij_betw (\<lambda>(t, v, b).
       tv_offset \<lparr>shape = Tuple [Tuple [Leaf 4, Leaf 32], Tuple [Leaf 8, Leaf 2]],
                  stride = Tuple [Tuple [Leaf 1, Leaf 32], Tuple [Leaf 4, Leaf 1024]]\<rparr> t v b)
     ({0..<4 * 32} \<times> {0..<8} \<times> {0..<2}) {0..<4 * 512}
   \<and> N (configured Float16 512 1) \<le> 512
   \<and> (\<exists>!a. a \<in> {0..<4 * 32} \<times> {0..<8} \<times> {0..<2}
          \<and> (case a of (t, v, b) \<Rightarrow>
                tv_offset \<lparr>shape = Tuple [Tuple [Leaf 4, Leaf 32], Tuple [Leaf 8, Leaf 2]],
                  stride = Tuple [Tuple [Leaf 1, Leaf 32], Tuple [Leaf 4, Leaf 1024]]\<rparr> t v b) =
              layout_at (make_layout (Tuple [Leaf 4, Leaf 512]) None) (Tuple [Leaf 3, Leaf 511]))"
proof -
  have p: "get_tv_layout get_num_threads (fixed_threads_per_row 32) (configured Float16 512 1) =
       Inr ((4, 512),
            \<lparr>shape = Tuple [Tuple [Leaf 4, Leaf 32], Tuple [Leaf 8, Leaf 2]],
             stride = Tuple [Tuple [Leaf 1, Leaf 32], Tuple [Leaf 4, Leaf 1024]]\<rparr>)"
    by (simp add: get_tv_layout_def get_num_threads_def cfg_defs WARP_SIZE_def ceil_div_def
      make_layout_def Let_def)
  have h: "fixed_threads_per_row 32 (configured Float16 512 1) = Inr 32" "(0::int) < 32"
    "cluster_n (configured Float16 512 1) = Some 1" "(0::int) < 1"
    "0 < width (dtype (configured Float16 512 1))"
    "0 \<le> get_num_threads (configured Float16 512 1)"
    "ceil_div (N (configured Float16 512 1) div (128 div width (dtype (configured Float16 512 1))))
       (32 * 1) = Inr 2"
    by (simp_all add: cfg_defs get_num_threads_def ceil_div_def)
  have v: "128 div width (dtype (configured Float16 512 1)) = 8" by (simp add: cfg_defs)
  have n: "N (configured Float16 512 1) = 512" by (simp add: cfg_defs)
  note t = tv_layout_bijection [OF p h, unfolded v]
  from t have b: "bij_betw (\<lambda>(t, v, b).
       tv_offset \<lparr>shape = Tuple [Tuple [Leaf 4, Leaf 32], Tuple [Leaf 8, Leaf 2]],
                  stride = Tuple [Tuple [Leaf 1, Leaf 32], Tuple [Leaf 4, Leaf 1024]]\<rparr> t v b)
     ({0..<4 * 32} \<times> {0..<8} \<times> {0..<2}) {0..<4 * 512}" by simp
  from t have w: "N (configured Float16 512 1) \<le> 512" by simp
  from t w have "\<forall>r\<in>{0..<4}. \<forall>k\<in>{0..<N (configured Float16 512 1)}.
     \<exists>!a. a \<in> {0..<4 * 32} \<times> {0..<8} \<times> {0..<2}
          \<and> (case a of (t, v, b) \<Rightarrow>
                tv_offset \<lparr>shape = Tuple [Tuple [Leaf 4, Leaf 32], Tuple [Leaf 8, Leaf 2]],
                  stride = Tuple [Tuple [Leaf 1, Leaf 32], Tuple [Leaf 4, Leaf 1024]]\<rparr> t v b) =
              layout_at (make_layout (Tuple [Leaf 4, Leaf 512]) None) (Tuple [Leaf r, Leaf k])"
    by simp
  then have "\<And>r k. r \<in> {0..<4} \<Longrightarrow> k \<in> {0..<N (configured Float16 512 1)} \<Longrightarrow>
     \<exists>!a. a \<in> {0..<4 * 32} \<times> {0..<8} \<times> {0..<2}
          \<and> (case a of (t, v, b) \<Rightarrow>
                tv_offset \<lparr>shape = Tuple [Tuple [Leaf 4, Leaf 32], Tuple [Leaf 8, Leaf 2]],
                  stride = Tuple [Tuple [Leaf 1, Leaf 32], Tuple [Leaf 4, Leaf 1024]]\<rparr> t v b) =
              layout_at (make_layout (Tuple [Leaf 4, Leaf 512]) None) (Tuple [Leaf r, Leaf k])"
    by blast
  from this [of 3 511] have u: "\<exists>!a. a \<in> {0..<4 * 32} \<times> {0..<8} \<times> {0..<2}
          \<and> (case a of (t, v, b) \<Rightarrow>
                tv_offset \<lparr>shape = Tuple [Tuple [Leaf 4, Leaf 32], Tuple [Leaf 8, Leaf 2]],
                  stride = Tuple [Tuple [Leaf 1, Leaf 32], Tuple [Leaf 4, Leaf 1024]]\<rparr> t v b) =
              layout_at (make_layout (Tuple [Leaf 4, Leaf 512]) None) (Tuple [Leaf 3, Leaf 511])"
    unfolding n by simp
  from b w u show ?thesis by (intro conjI)
qed

text \<open>
  With a cluster of 2 blocks on a row of 1024 32-bit elements and 128 threads per row, the
  configuration passes both assertions, the tile is one row of 512 columns, and element
  512 of the row, at offset 512, is the offset of no triple.
\<close>

theorem tv_layout_cluster_counterexample:
  "get_tv_layout get_num_threads (fixed_threads_per_row 128) (configured_cluster Float32 1024 1 2) =
     Inr ((1, 512),
          \<lparr>shape = Tuple [Tuple [Leaf 1, Leaf 128], Tuple [Leaf 4, Leaf 1]],
           stride = Tuple [Tuple [Leaf 1, Leaf 4], Tuple [Leaf 1, Leaf 512]]\<rparr>)
   \<and> N (configured_cluster Float32 1024 1 2) mod 4 = 0
   \<and> get_num_threads (configured_cluster Float32 1024 1 2) mod WARP_SIZE = 0
   \<and> 512 \<in> {0..<N (configured_cluster Float32 1024 1 2)}
   \<and> layout_at (make_layout (Tuple [Leaf 1, Leaf 512]) None) (Tuple [Leaf 0, Leaf 512]) = 512
   \<and> 512 \<notin> (\<lambda>(t, v, b).
               tv_offset \<lparr>shape = Tuple [Tuple [Leaf 1, Leaf 128], Tuple [Leaf 4, Leaf 1]],
                          stride = Tuple [Tuple [Leaf 1, Leaf 4], Tuple [Leaf 1, Leaf 512]]\<rparr>
                 t v b) ` ({0..<1 * 128} \<times> {0..<4} \<times> {0..<1})"
proof -
  have "tv_offset \<lparr>shape = Tuple [Tuple [Leaf 1, Leaf 128], Tuple [Leaf 4, Leaf 1]],
                          stride = Tuple [Tuple [Leaf 1, Leaf 4], Tuple [Leaf 1, Leaf 512]]\<rparr>
                 t v b \<noteq> 512" if "0 \<le> t" "t < 128" "0 \<le> v" "v < 4" "0 \<le> b" "b < 1" for t v b
    using that by (simp add: tv_offset_def layout_at_def)
  then show ?thesis
    by (auto simp: get_tv_layout_def get_num_threads_def cfg_defs WARP_SIZE_def ceil_div_def
      make_layout_def Let_def layout_at_def)
qed

section \<open>Capacity of the tile\<close>

text \<open>
  C2 (as amended). Let the planner return the tile \<open>(rows, cols)\<close> for a kernel with
  positive threads per row and cluster size and a positive element width, and let
  \<open>nb\<close> be the ceiling of (N div vector width) over (threads per row times cluster size).
  Then \<open>rows\<close> is the thread count divided by the threads per row, \<open>cols\<close> is vector width
  times \<open>nb\<close> times threads per row, and the columns of the tile over the whole cluster,
  \<open>cols\<close> times cluster size, are at least \<open>N\<close> and less than \<open>N\<close> plus vector width times
  threads per row times cluster size. The capacity of the tile is \<open>rows\<close> times \<open>cols\<close>: it
  satisfies the same two bounds when \<open>rows\<close> equals the cluster size, and it is at least
  \<open>N\<close> when the cluster size is at most \<open>rows\<close>.
\<close>

theorem tile_capacity_bounds:
  assumes plan: "get_tv_layout ntm tprm self = Inr ((rows, cols), tv)"
    and tpr: "tprm self = Inr tpr" "0 < tpr"
    and cn: "cluster_n self = Some cn" "0 < cn"
    and w: "0 < width (dtype self)"
    and nb: "ceil_div (N self div (128 div width (dtype self))) (tpr * cn) = Inr nb"
  shows "rows = ntm self div tpr
         \<and> cols = (128 div width (dtype self)) * nb * tpr
         \<and> N self \<le> cols * cn
         \<and> cols * cn < N self + (128 div width (dtype self)) * tpr * cn
         \<and> (rows = cn \<longrightarrow>
               N self \<le> rows * cols
               \<and> rows * cols < N self + (128 div width (dtype self)) * tpr * cn)
         \<and> (0 \<le> N self \<and> cn \<le> rows \<longrightarrow> N self \<le> rows * cols)"
proof -
  define V where "V = 128 div width (dtype self)"
  note d = get_tv_layout_InrD [OF plan tpr(1) cn(1) nb, folded V_def]
  have V: "0 < V"
  proof -
    have "0 \<le> V" unfolding V_def using w by (simp add: pos_imp_zdiv_nonneg_iff)
    with d(1) show ?thesis by simp
  qed
  have D: "0 < tpr * cn" using tpr(2) cn(2) by simp
  have NV: "V * (N self div V) = N self" using d(2) by (simp add: mod_eq_0_iff_dvd)
  have "N self div V \<le> nb * (tpr * cn)" unfolding d(5) by (rule ceil_bounds(1) [OF D])
  then have "V * (N self div V) \<le> V * (nb * (tpr * cn))" using V by (simp add: mult_left_mono)
  then have lo: "N self \<le> cols * cn" unfolding NV d(7) by (simp add: algebra_simps)
  have "nb * (tpr * cn) < N self div V + tpr * cn" unfolding d(5) by (rule ceil_bounds(2) [OF D])
  then have "V * (nb * (tpr * cn)) < V * (N self div V + tpr * cn)"
    using V by (simp add: mult_less_cancel_left_pos)
  then have hi: "cols * cn < N self + V * tpr * cn"
    unfolding d(7) using NV by (simp add: algebra_simps)
  have eq: "N self \<le> rows * cols \<and> rows * cols < N self + V * tpr * cn" if "rows = cn"
    using lo hi that by (simp add: mult.commute)
  have ge: "N self \<le> rows * cols" if n: "0 \<le> N self" and c: "cn \<le> rows"
  proof -
    have "0 \<le> cols"
    proof (rule ccontr)
      assume "\<not> 0 \<le> cols"
      then have "cols * cn < 0" using cn(2) by (simp add: mult_neg_pos)
      with lo n show False by simp
    qed
    with c have "cn * cols \<le> rows * cols" by (rule mult_right_mono)
    with lo show ?thesis by (simp add: mult.commute)
  qed
  show ?thesis
    unfolding V_def [symmetric] using d(6) d(7) lo hi eq ge by simp
qed

theorem tile_capacity_bounds_witness:
  "N (configured Float16 512 1) \<le> 512 * 1
   \<and> 512 * 1 < N (configured Float16 512 1) + 8 * 32 * 1
   \<and> N (configured Float16 512 1) \<le> 4 * 512"
proof -
  have p: "get_tv_layout get_num_threads (fixed_threads_per_row 32) (configured Float16 512 1) =
       Inr ((4, 512),
            \<lparr>shape = Tuple [Tuple [Leaf 4, Leaf 32], Tuple [Leaf 8, Leaf 2]],
             stride = Tuple [Tuple [Leaf 1, Leaf 32], Tuple [Leaf 4, Leaf 1024]]\<rparr>)"
    by (simp add: get_tv_layout_def get_num_threads_def cfg_defs WARP_SIZE_def ceil_div_def
      make_layout_def Let_def)
  have h: "fixed_threads_per_row 32 (configured Float16 512 1) = Inr 32" "(0::int) < 32"
    "cluster_n (configured Float16 512 1) = Some 1" "(0::int) < 1"
    "0 < width (dtype (configured Float16 512 1))"
    "ceil_div (N (configured Float16 512 1) div (128 div width (dtype (configured Float16 512 1))))
       (32 * 1) = Inr 2"
    by (simp_all add: cfg_defs ceil_div_def)
  have v: "128 div width (dtype (configured Float16 512 1)) = 8"
    "0 \<le> N (configured Float16 512 1)" by (simp_all add: cfg_defs)
  from tile_capacity_bounds [OF p h] v(2) show ?thesis
    unfolding v(1) by simp
qed

text \<open>
  In the worked example of the source (\<open>N = 512\<close>, vector width 8, 32 threads per row,
  cluster size 1, 4 rows per block, 2 blocks along the row) the capacity is 2048, which is
  not below \<open>512 + 8 * 32 * 1\<close>.
\<close>

theorem tile_capacity_counterexample:
  "get_tv_layout get_num_threads (fixed_threads_per_row 32) (configured Float16 512 1) =
     Inr ((4, 512),
          \<lparr>shape = Tuple [Tuple [Leaf 4, Leaf 32], Tuple [Leaf 8, Leaf 2]],
           stride = Tuple [Tuple [Leaf 1, Leaf 32], Tuple [Leaf 4, Leaf 1024]]\<rparr>)
   \<and> 128 div width (dtype (configured Float16 512 1)) = 8
   \<and> ceil_div (N (configured Float16 512 1) div 8) (32 * 1) = Inr 2
   \<and> get_num_threads (configured Float16 512 1) div 32 = 4
   \<and> \<not> (4 * 8 * 2 * 32 < N (configured Float16 512 1) + 8 * 32 * 1)"
  by (simp add: get_tv_layout_def get_num_threads_def cfg_defs WARP_SIZE_def ceil_div_def
      make_layout_def Let_def)

section \<open>The reduction buffer layout\<close>

text \<open>
  C3. For 64 threads per row on a row of 1024 16-bit elements the planner's layout has the
  thread mode \<open>(2, 64)\<close>: \<^verbatim>\<open>cols_per_block\<close> is 2 and \<^verbatim>\<open>threads_per_row\<close> is 64.
  \<^verbatim>\<open>_get_reduction_buffer_layout\<close> reads the first entry of that mode, so its warps per row is
  \<open>max (2 div 32) 1 = 1\<close> and the buffer has shape \<open>(4, (1, 1), 1)\<close>, where the threads per
  row give \<open>max (64 div 32) 1 = 2\<close> warps per row.
\<close>

theorem reduction_buffer_layout_reads_cols_per_block:
  "get_tv_layout get_num_threads (fixed_threads_per_row 64) (configured Float16 1024 1) =
     Inr ((2, 1024),
          \<lparr>shape = Tuple [Tuple [Leaf 2, Leaf 64], Tuple [Leaf 8, Leaf 2]],
           stride = Tuple [Tuple [Leaf 1, Leaf 16], Tuple [Leaf 2, Leaf 1024]]\<rparr>)
   \<and> get_reduction_buffer_layout (configured Float16 1024 1)
        \<lparr>shape = Tuple [Tuple [Leaf 2, Leaf 64], Tuple [Leaf 8, Leaf 2]],
         stride = Tuple [Tuple [Leaf 1, Leaf 16], Tuple [Leaf 2, Leaf 1024]]\<rparr> 1 =
     Inr \<lparr>shape = Tuple [Leaf 4, Tuple [Leaf 1, Leaf 1], Leaf 1],
          stride = Tuple [Leaf 1, Tuple [Leaf 1, Leaf 1], Leaf 4]\<rparr>
   \<and> max_constexpr (2 div WARP_SIZE) 1 = 1
   \<and> max_constexpr (64 div WARP_SIZE) 1 = 2"
  by (simp add: get_tv_layout_def get_num_threads_def cfg_defs WARP_SIZE_def ceil_div_def
      make_layout_def Let_def get_reduction_buffer_layout_def max_constexpr_def
      make_ordered_layout_def ordered_stride_def upt_rec numeral_nat)

end
